theory Spec2Isabelle
  imports Main
begin

text \<open>
  The job runner of spincycle, as far as its two source files go: the runner
  factory (runner/factory.go) and the controllers of the HTTP API (api/api.go).
  Both are translated below as they are written. What they call in other
  packages is either a parameter (package job, the hostname function, the JSON
  encoder) or, for the packages chain and proto of the same repository,
  modelled from the spec; each such definition says so.
\<close>

section \<open>Shared data\<close>

text \<open>
  A Go \<^verbatim>\<open>error\<close> value exposes its message only (\<^verbatim>\<open>err.Error()\<close>), so an
  error is modelled by the message it carries. A \<^verbatim>\<open>[]byte\<close> is a list of
  8-bit characters.
\<close>

datatype error = Error string

fun errorText :: "error \<Rightarrow> string" where
  "errorText (Error msg) = msg"

type_synonym bytes = "char list"

section \<open>The runner factory (job-runner/runner/factory.go)\<close>

text \<open>
  The package \<^verbatim>\<open>job\<close> is a collaborator of the factory: \<^verbatim>\<open>job.Factory\<close> and
  the \<^verbatim>\<open>job.Job\<close> interface are taken as parameters. A job value is of an arbitrary
  type \<open>'j\<close>. \<open>Factory_Make\<close> stands for \<^verbatim>\<open>f.jobFactory.Make(jobType, jobName)\<close>
  and \<open>Job_Deserialize\<close> for the method \<^verbatim>\<open>job.Deserialize(jobBytes)\<close>, which
  mutates the job in place: the model returns the restored job. Both follow
  the Go convention that either the error or the value is returned.
\<close>

record 'j runnerFactory =
  Factory_Make :: "string \<Rightarrow> string \<Rightarrow> error + 'j"
  Job_Deserialize :: "'j \<Rightarrow> bytes \<Rightarrow> error + 'j"

text \<open>
  Modelled from the spec: the type \<^verbatim>\<open>JobRunner\<close> and its constructor
  \<^verbatim>\<open>NewJobRunner(job, requestId)\<close> are not in the two source files. The spec
  describes the Job Runner Wrapper as wrapping one instantiated, state-restored
  job, bound to the request identifier, and its construction as free of side
  effects.
\<close>

record 'j JobRunner =
  realJob :: 'j
  runnerRequestId :: nat

definition NewJobRunner :: "'j \<Rightarrow> nat \<Rightarrow> 'j JobRunner" where
  "NewJobRunner job requestId = \<lparr>realJob = job, runnerRequestId = requestId\<rparr>"

text \<open>
  The calls a function makes on its collaborators, in order. The constructors
  cover the whole contract of a job (restore, run, stop, status), so that the
  absence of a call can be stated.
\<close>

datatype 'j call =
    CallFactoryMake string string
  | CallDeserialize 'j bytes
  | CallNewJobRunner 'j nat
  | CallRun 'j
  | CallStop 'j
  | CallStatus 'j

text \<open>
  \<^verbatim>\<open>func (f *runnerFactory) Make(jobType, jobName string, jobBytes []byte,
  requestId uint) (Runner, error)\<close>. The Go function returns a pair in which
  either component may be \<^verbatim>\<open>nil\<close>: the model keeps the pair, with \<open>None\<close> for
  \<^verbatim>\<open>nil\<close>, and returns the calls made beside it.
\<close>

definition Make ::
  "'j runnerFactory \<Rightarrow> string \<Rightarrow> string \<Rightarrow> bytes \<Rightarrow> nat
    \<Rightarrow> 'j call list \<times> 'j JobRunner option \<times> error option" where
  "Make f jobType jobName jobBytes requestId =
     (case Factory_Make f jobType jobName of
        Inl err \<Rightarrow> ([CallFactoryMake jobType jobName], None, Some err)
      | Inr job \<Rightarrow>
          (case Job_Deserialize f job jobBytes of
             Inl err \<Rightarrow>
               ([CallFactoryMake jobType jobName, CallDeserialize job jobBytes],
                None, Some err)
           | Inr job' \<Rightarrow>
               ([CallFactoryMake jobType jobName, CallDeserialize job jobBytes,
                 CallNewJobRunner job' requestId],
                Some (NewJobRunner job' requestId), None)))"

definition Make_calls :: "'j call list \<times> 'j JobRunner option \<times> error option \<Rightarrow> 'j call list" where
  "Make_calls r = fst r"

definition Make_runner ::
  "'j call list \<times> 'j JobRunner option \<times> error option \<Rightarrow> 'j JobRunner option" where
  "Make_runner r = fst (snd r)"

definition Make_error :: "'j call list \<times> 'j JobRunner option \<times> error option \<Rightarrow> error option" where
  "Make_error r = snd (snd r)"

text \<open>
  A small job package to run the factory on: jobs are strings, the only known
  type is \<open>''shell''\<close>, and a job restores itself from any non-empty blob by
  storing it.
\<close>

definition demoFactory :: "string runnerFactory" where
  "demoFactory =
     \<lparr>Factory_Make = (\<lambda>jobType jobName.
        if jobType = ''shell'' then Inr [] else Inl (Error ''unknown job type'')),
      Job_Deserialize = (\<lambda>job bs.
        if bs = [] then Inl (Error ''deserialization'') else Inr bs)\<rparr>"

section \<open>Collaborators of the API (packages router, proto and chain)\<close>

text \<open>
  The values of package \<^verbatim>\<open>router\<close> that the controllers name, and what a
  controller can do to the response of its \<^verbatim>\<open>router.HTTPContext\<close>:
  \<^verbatim>\<open>ctx.APIError(kind, format, args...)\<close>, \<^verbatim>\<open>ctx.UnsupportedAPIMethod()\<close>,
  \<^verbatim>\<open>ctx.Response.Header().Set(key, value)\<close> and
  \<^verbatim>\<open>fmt.Fprintln(ctx.Response, text)\<close>. The response records each of them:
  the kind of the error with its message (the format with \<^verbatim>\<open>%s\<close> replaced by
  the argument), the flag of an unsupported method, the headers set and the
  lines printed. Every controller makes at most one of these calls.
\<close>

datatype routerError = ErrInternal | ErrBadRequest | ErrNotFound

record Response =
  apiError :: "(routerError \<times> string) option"
  unsupportedMethod :: bool
  header :: "(string \<times> string) list"
  written :: "string list"

definition emptyResponse :: Response where
  "emptyResponse = \<lparr>apiError = None, unsupportedMethod = False, header = [], written = []\<rparr>"

definition APIError :: "routerError \<Rightarrow> string \<Rightarrow> Response" where
  "APIError kind msg = emptyResponse\<lparr>apiError := Some (kind, msg)\<rparr>"

definition UnsupportedAPIMethod :: Response where
  "UnsupportedAPIMethod = emptyResponse\<lparr>unsupportedMethod := True\<rparr>"

text \<open>
  Modelled from the spec: package \<^verbatim>\<open>proto\<close> is not in the source files. A job
  node has an identifier, a type tag, a display name, a serialized state and
  its predecessor and successor identifiers (spec, section 3); a chain
  specification has the owning request identifier, which may be missing, and
  the nodes. The per-job status is left out: no job is executed in this model.
\<close>

record JobNode =
  nodeId :: string
  nodeType :: string
  nodeName :: string
  nodeState :: bytes
  predecessors :: "string list"
  successors :: "string list"

record JobChain =
  specRequestId :: "nat option"
  specNodes :: "JobNode list"

text \<open>
  The request as a controller reads it: the method, the result of decoding the
  body with \<^verbatim>\<open>json.NewDecoder(ctx.Request.Body).Decode(&jobChain)\<close>, and the
  arguments the router matched in the path.
\<close>

record HTTPContext =
  Method :: string
  Body :: "error + JobChain"
  Arguments :: "string list"

text \<open>
  \<^verbatim>\<open>ctx.Arguments[1]\<close>: Go panics when the index is out of range, which is
  \<open>None\<close> here.
\<close>

definition argument1 :: "HTTPContext \<Rightarrow> string option" where
  "argument1 ctx =
     (if 1 < length (Arguments ctx) then Some (Arguments ctx ! 1) else None)"

text \<open>
  \<^verbatim>\<open>strconv.FormatUint(n, 10)\<close> of the Go library: the decimal digits of \<open>n\<close>.
\<close>

function FormatUint :: "nat \<Rightarrow> string" where
  "FormatUint n =
     (if n < 10 then [''0123456789'' ! n]
      else FormatUint (n div 10) @ [''0123456789'' ! (n mod 10)])"
  by pat_completeness auto
termination
  by (relation "measure id") auto

declare FormatUint.simps [simp del]

text \<open>
  Modelled from the spec: package \<^verbatim>\<open>chain\<close> (the Chain, the Traverser and the
  Traverser Registry) is not in the source files; api.go only calls it.

  The Chain wraps the specification it was built from. In api.go
  \<^verbatim>\<open>chain.NewChain(&jobChain)\<close> has a single result and
  \<^verbatim>\<open>chain.NewTraverser(chainRepo, runnerFactory, c)\<close> is the construction
  step that can return an error, so the validation the spec asks for at
  construction (section 4.3: every predecessor and successor names an existing
  node, the graph is acyclic, the request identifier is present) is reported
  there, as a "malformed chain" error. \<^verbatim>\<open>c.RequestId()\<close> of a
  specification without identifier is Go's zero value.
\<close>

datatype chain = Chain JobChain

definition NewChain :: "JobChain \<Rightarrow> chain" where
  "NewChain jc = Chain jc"

fun RequestId :: "chain \<Rightarrow> nat" where
  "RequestId (Chain jc) = (case specRequestId jc of None \<Rightarrow> 0 | Some n \<Rightarrow> n)"

definition nodeIds :: "JobChain \<Rightarrow> string list" where
  "nodeIds jc = map nodeId (specNodes jc)"

definition danglingReference :: "JobChain \<Rightarrow> bool" where
  "danglingReference jc =
     list_ex (\<lambda>n. list_ex (\<lambda>r. r \<notin> set (nodeIds jc)) (predecessors n @ successors n))
       (specNodes jc)"

definition edges :: "JobChain \<Rightarrow> (string \<times> string) list" where
  "edges jc =
     concat (map (\<lambda>n. map (\<lambda>s. (nodeId n, s)) (successors n) @
                       map (\<lambda>p. (p, nodeId n)) (predecessors n))
               (specNodes jc))"

definition hasCycle :: "JobChain \<Rightarrow> bool" where
  "hasCycle jc = (\<not> acyclic (set (edges jc)))"

definition malformed :: "JobChain \<Rightarrow> bool" where
  "malformed jc = (specRequestId jc = None \<or> danglingReference jc \<or> hasCycle jc)"

text \<open>
  Modelled from the spec: the Traverser of package \<^verbatim>\<open>chain\<close>, which is not in
  the source files, as the state machine of section 4.4: Created, Running,
  then one of the terminal states Complete, Failed and Stopped; and its stop
  flag. The traversal of the graph itself is not modelled.
\<close>

datatype traverserStatus = TCreated | TRunning | TComplete | TFailed | TStopped

fun terminal :: "traverserStatus \<Rightarrow> bool" where
  "terminal TComplete = True"
| "terminal TFailed = True"
| "terminal TStopped = True"
| "terminal TCreated = False"
| "terminal TRunning = False"

record traverser =
  tChain :: chain
  tStatus :: traverserStatus
  stopFlag :: bool

text \<open>
  Modelled from the spec: \<^verbatim>\<open>traverser.Stop()\<close>, not in the source files. By
  section 4.4 it sets the stop flag and returns at once, without waiting for
  the traversal to drain; on a terminal Traverser it does nothing. The spec
  names no failure of it. The comment at its call in api.go reads "This is
  expected to return quickly."
\<close>

definition Traverser_Stop :: "traverser \<Rightarrow> traverser \<times> error option" where
  "Traverser_Stop t =
     (if terminal (tStatus t) then (t, None) else (t\<lparr>stopFlag := True\<rparr>, None))"

text \<open>
  Modelled from the spec: \<^verbatim>\<open>traverser.Status()\<close>, not in the source files. By
  section 4.4 it returns a snapshot and never blocks. Only the overall status
  is in the model.
\<close>

definition Traverser_Status :: "traverser \<Rightarrow> traverserStatus \<times> error option" where
  "Traverser_Status t = (tStatus t, None)"

text \<open>
  Modelled from the spec: the Traverser Registry, \<^verbatim>\<open>chain.TraverserRepo\<close> in
  api.go, not in the source files. By section 4.5 it is a map from the request
  identifier (api.go uses its decimal form as the key) to a Traverser; \<open>Add\<close>
  fails with "already exists" on an occupied key, \<open>Get\<close> fails with
  "not found" on an absent one, and \<open>Remove\<close> is idempotent. The Traversers
  are Go pointers, here addresses into a heap.
\<close>

type_synonym ref = nat

type_synonym traverserRepo = "string \<rightharpoonup> ref"

definition Add :: "traverserRepo \<Rightarrow> string \<Rightarrow> ref \<Rightarrow> error + traverserRepo" where
  "Add repo key t =
     (case repo key of
        Some _ \<Rightarrow> Inl (Error ''already exists'')
      | None \<Rightarrow> Inr (repo(key \<mapsto> t)))"

definition Get :: "traverserRepo \<Rightarrow> string \<Rightarrow> error + ref" where
  "Get repo key =
     (case repo key of
        None \<Rightarrow> Inl (Error ''not found'')
      | Some t \<Rightarrow> Inr t)"

definition Remove :: "traverserRepo \<Rightarrow> string \<Rightarrow> traverserRepo" where
  "Remove repo key = repo(key := None)"

section \<open>The API and its goroutines (job-runner/api/api.go)\<close>

definition API_ROOT :: string where
  "API_ROOT = ''/api/v1/''"

text \<open>
  The goroutine that \<^verbatim>\<open>startJobChainHandler\<close> starts runs
  \<^verbatim>\<open>traverser.Run(); api.traverserRepo.Remove(requestIdStr)\<close>. It holds the
  Traverser and the identifier it was started with, and is before the call of
  \<open>Run\<close>, inside it, between its return and \<open>Remove\<close>, or finished.
\<close>

datatype goPhase = GoSpawned | GoInRun | GoRunReturned | GoFinished

record goroutine =
  gTraverser :: ref
  gRequestId :: string
  gPhase :: goPhase

text \<open>
  The state the controllers share: the registry \<^verbatim>\<open>api.traverserRepo\<close>, the
  Traverser objects by address (addresses from \<open>nextRef\<close> on are not allocated
  yet), and the goroutines started so far. The fields \<^verbatim>\<open>Router\<close>,
  \<^verbatim>\<open>chainRepo\<close> and \<^verbatim>\<open>runnerFactory\<close> of the struct \<^verbatim>\<open>API\<close> are only
  handed on to package chain and are left out.
\<close>

record API =
  traverserRepo :: traverserRepo
  heap :: "ref \<Rightarrow> traverser"
  nextRef :: ref
  goroutines :: "goroutine list"

text \<open>
  Modelled from the spec: \<^verbatim>\<open>chain.NewTraverser\<close>, see above. A new Traverser
  is in state Created with its stop flag unset.
\<close>

definition NewTraverser :: "API \<Rightarrow> chain \<Rightarrow> error + (API \<times> ref)" where
  "NewTraverser api c =
     (case c of Chain jc \<Rightarrow>
        if malformed jc then Inl (Error ''malformed chain'')
        else Inr (api\<lparr>heap := (heap api)(nextRef api :=
                          \<lparr>tChain = c, tStatus = TCreated, stopFlag = False\<rparr>),
                        nextRef := Suc (nextRef api)\<rparr>,
                  nextRef api))"

text \<open>\<^verbatim>\<open>func chainLocation(requestId string, hostname func() (string, error)) string\<close>\<close>

definition chainLocation :: "string \<Rightarrow> (unit \<Rightarrow> string \<times> error option) \<Rightarrow> string" where
  "chainLocation requestId hostname =
     (case hostname () of (h, _) \<Rightarrow> h @ API_ROOT @ ''job-chains/'' @ requestId)"

text \<open>\<^verbatim>\<open>POST <API_ROOT>/job-chains\<close>\<close>

definition newJobChainHandler :: "API \<Rightarrow> HTTPContext \<Rightarrow> API \<times> Response" where
  "newJobChainHandler api ctx =
     (if Method ctx = ''POST'' then
        (case Body ctx of
           Inl err \<Rightarrow>
             (api, APIError ErrInternal
                (''Can't decode request body (error: '' @ errorText err @ '')''))
         | Inr jobChain \<Rightarrow>
             (let c = NewChain jobChain;
                  requestIdStr = FormatUint (RequestId c)
              in case NewTraverser api c of
                   Inl err \<Rightarrow>
                     (api, APIError ErrBadRequest
                        (''Problem creating traverser (error: '' @ errorText err @ '')''))
                 | Inr (api1, traverser) \<Rightarrow>
                     (case Add (traverserRepo api1) requestIdStr traverser of
                        Inl err \<Rightarrow> (api1, APIError ErrBadRequest (errorText err))
                      | Inr repo \<Rightarrow> (api1\<lparr>traverserRepo := repo\<rparr>, emptyResponse))))
      else (api, UnsupportedAPIMethod))"

text \<open>
  \<^verbatim>\<open>PUT <API_ROOT>/job-chains/{requestId}/start\<close>. The second argument is
  \<^verbatim>\<open>os.Hostname\<close>. The \<^verbatim>\<open>go\<close> statement only records the new goroutine: the
  controller returns without running it.
\<close>

definition startJobChainHandler ::
  "API \<Rightarrow> HTTPContext \<Rightarrow> (unit \<Rightarrow> string \<times> error option) \<Rightarrow> (API \<times> Response) option" where
  "startJobChainHandler api ctx osHostname =
     (if Method ctx = ''PUT'' then
        (case argument1 ctx of
           None \<Rightarrow> None
         | Some requestIdStr \<Rightarrow>
             (case Get (traverserRepo api) requestIdStr of
                Inl err \<Rightarrow>
                  Some (api, APIError ErrNotFound
                    (''Can't retrieve traverser from repo (error: '' @ errorText err @ '').''))
              | Inr traverser \<Rightarrow>
                  Some (api\<lparr>goroutines := goroutines api @
                              [\<lparr>gTraverser = traverser, gRequestId = requestIdStr,
                                gPhase = GoSpawned\<rparr>]\<rparr>,
                        emptyResponse\<lparr>header :=
                          [(''Location'', chainLocation requestIdStr osHostname)]\<rparr>)))
      else Some (api, UnsupportedAPIMethod))"

text \<open>\<^verbatim>\<open>PUT <API_ROOT>/job-chains/{requestId}/stop\<close>\<close>

definition stopJobChainHandler :: "API \<Rightarrow> HTTPContext \<Rightarrow> (API \<times> Response) option" where
  "stopJobChainHandler api ctx =
     (if Method ctx = ''PUT'' then
        (case argument1 ctx of
           None \<Rightarrow> None
         | Some requestIdStr \<Rightarrow>
             (case Get (traverserRepo api) requestIdStr of
                Inl err \<Rightarrow>
                  Some (api, APIError ErrNotFound
                    (''Can't retrieve traverser from repo (error: '' @ errorText err @ '').''))
              | Inr traverser \<Rightarrow>
                  (case Traverser_Stop (heap api traverser) of
                     (t', Some err) \<Rightarrow>
                       Some (api\<lparr>heap := (heap api)(traverser := t')\<rparr>,
                             APIError ErrInternal
                               (''Can't stop the chain (error: '' @ errorText err @ '')''))
                   | (t', None) \<Rightarrow>
                       Some (api\<lparr>heap := (heap api)(traverser := t'),
                                 traverserRepo := Remove (traverserRepo api) requestIdStr\<rparr>,
                             emptyResponse))))
      else Some (api, UnsupportedAPIMethod))"

text \<open>
  \<^verbatim>\<open>GET <API_ROOT>/job-chains/{requestId}/status\<close>. The first argument is the
  helper \<^verbatim>\<open>marshal\<close>, that is \<^verbatim>\<open>json.MarshalIndent\<close> of the Go library.
\<close>

definition statusJobChainHandler ::
  "(traverserStatus \<Rightarrow> error + string) \<Rightarrow> API \<Rightarrow> HTTPContext \<Rightarrow> (API \<times> Response) option" where
  "statusJobChainHandler marshal api ctx =
     (if Method ctx = ''GET'' then
        (case argument1 ctx of
           None \<Rightarrow> None
         | Some requestIdStr \<Rightarrow>
             (case Get (traverserRepo api) requestIdStr of
                Inl err \<Rightarrow>
                  Some (api, APIError ErrNotFound
                    (''Can't retrieve traverser from repo (error: '' @ errorText err @ '').''))
              | Inr traverser \<Rightarrow>
                  (case Traverser_Status (heap api traverser) of
                     (statuses, Some err) \<Rightarrow>
                       Some (api, APIError ErrInternal
                         (''Can't get the chain's status (error: '' @ errorText err @ '')''))
                   | (statuses, None) \<Rightarrow>
                       (case marshal statuses of
                          Inl err \<Rightarrow>
                            Some (api, APIError ErrInternal
                              (''Can't encode response (error: '' @ errorText err @ '')''))
                        | Inr out \<Rightarrow> Some (api, emptyResponse\<lparr>written := [out]\<rparr>)))))
      else Some (api, UnsupportedAPIMethod))"

section \<open>Interleaving of requests and goroutines\<close>

text \<open>
  The goroutine's three actions: it enters \<open>Run\<close>, \<open>Run\<close> returns, it calls
  \<open>Remove\<close>. Each is of the goroutine at index \<open>i\<close> and is possible in one
  phase only (\<open>None\<close> otherwise).
\<close>

definition setPhase :: "nat \<Rightarrow> goPhase \<Rightarrow> goroutine list \<Rightarrow> goroutine list" where
  "setPhase i ph gs = gs[i := (gs ! i)\<lparr>gPhase := ph\<rparr>]"

text \<open>
  Modelled from the spec: \<^verbatim>\<open>traverser.Run()\<close> is not in the source files. By
  section 4.4 of the spec Running begins when \<open>Run\<close> is invoked, and a \<open>Run\<close>
  on a terminal Traverser is rejected, so it returns at once; \<open>Run\<close> returns
  when the traversal has ended in a terminal state, which is latched. Which
  terminal state is reached is the environment's choice.
\<close>

definition goRun :: "nat \<Rightarrow> API \<Rightarrow> API option" where
  "goRun i api =
     (if i < length (goroutines api) \<and> gPhase (goroutines api ! i) = GoSpawned then
        (let r = gTraverser (goroutines api ! i); t = heap api r
         in if terminal (tStatus t)
            then Some (api\<lparr>goroutines := setPhase i GoRunReturned (goroutines api)\<rparr>)
            else Some (api\<lparr>heap := (heap api)(r := t\<lparr>tStatus := TRunning\<rparr>),
                           goroutines := setPhase i GoInRun (goroutines api)\<rparr>))
      else None)"

definition goRunReturn :: "nat \<Rightarrow> traverserStatus \<Rightarrow> API \<Rightarrow> API option" where
  "goRunReturn i outcome api =
     (if i < length (goroutines api) \<and> gPhase (goroutines api ! i) = GoInRun
         \<and> terminal outcome then
        (let r = gTraverser (goroutines api ! i); t = heap api r
         in Some (api\<lparr>heap := (heap api)(r :=
                          (if terminal (tStatus t) then t else t\<lparr>tStatus := outcome\<rparr>)),
                        goroutines := setPhase i GoRunReturned (goroutines api)\<rparr>))
      else None)"

text \<open>
  The goroutine's last statement, \<^verbatim>\<open>api.traverserRepo.Remove(requestIdStr)\<close>,
  with the identifier the controller was called with.
\<close>

definition goRemove :: "nat \<Rightarrow> API \<Rightarrow> API option" where
  "goRemove i api =
     (if i < length (goroutines api) \<and> gPhase (goroutines api ! i) = GoRunReturned then
        Some (api\<lparr>traverserRepo :=
                     Remove (traverserRepo api) (gRequestId (goroutines api ! i)),
                   goroutines := setPhase i GoFinished (goroutines api)\<rparr>)
      else None)"

text \<open>
  What can happen next: one of the four requests is served, or a goroutine
  takes its next action. Controllers run concurrently in Go; here they
  interleave with each other and with the goroutines at the grain of a whole
  controller, which runs to its end in one step. A request carries what the
  environment gives its controller. A request whose controller panics, and an
  action a goroutine cannot take in its phase, are no steps (\<open>None\<close>).
\<close>

datatype event =
    NewJobChainReq HTTPContext
  | StartReq HTTPContext "unit \<Rightarrow> string \<times> error option"
  | StopReq HTTPContext
  | StatusReq HTTPContext "traverserStatus \<Rightarrow> error + string"
  | GoRun nat
  | GoRunReturn nat traverserStatus
  | GoRemove nat

fun step :: "event \<Rightarrow> API \<Rightarrow> API option" where
  "step (NewJobChainReq ctx) api = Some (fst (newJobChainHandler api ctx))"
| "step (StartReq ctx osHostname) api = map_option fst (startJobChainHandler api ctx osHostname)"
| "step (StopReq ctx) api = map_option fst (stopJobChainHandler api ctx)"
| "step (StatusReq ctx marshal) api = map_option fst (statusJobChainHandler marshal api ctx)"
| "step (GoRun i) api = goRun i api"
| "step (GoRunReturn i outcome) api = goRunReturn i outcome api"
| "step (GoRemove i) api = goRemove i api"

fun exec :: "event list \<Rightarrow> API \<Rightarrow> API option" where
  "exec [] api = Some api"
| "exec (e # es) api = (case step e api of None \<Rightarrow> None | Some api' \<Rightarrow> exec es api')"

text \<open>
  \<^verbatim>\<open>NewAPI\<close>: an empty registry, \<^verbatim>\<open>chain.NewTraverserRepo()\<close>; no Traverser
  and no goroutine yet.
\<close>

definition NewAPI :: API where
  "NewAPI =
     \<lparr>traverserRepo = Map.empty,
      heap = (\<lambda>_. \<lparr>tChain = Chain \<lparr>specRequestId = None, specNodes = []\<rparr>,
                   tStatus = TCreated, stopFlag = False\<rparr>),
      nextRef = 0,
      goroutines = []\<rparr>"

text \<open>Requests and chains to run the controllers on.\<close>

definition jobA :: JobNode where
  "jobA = \<lparr>nodeId = ''a'', nodeType = ''shell'', nodeName = ''first'', nodeState = [],
           predecessors = [], successors = [''b'']\<rparr>"

definition jobB :: JobNode where
  "jobB = \<lparr>nodeId = ''b'', nodeType = ''shell'', nodeName = ''second'', nodeState = [],
           predecessors = [''a''], successors = []\<rparr>"

definition chain1 :: JobChain where
  "chain1 = \<lparr>specRequestId = Some 1, specNodes = [jobA, jobB]\<rparr>"

definition cyclicChain :: JobChain where
  "cyclicChain =
     \<lparr>specRequestId = Some 2,
      specNodes = [jobA\<lparr>predecessors := [''b'']\<rparr>, jobB\<lparr>successors := [''a'']\<rparr>]\<rparr>"

definition danglingChain :: JobChain where
  "danglingChain = \<lparr>specRequestId = Some 3, specNodes = [jobA]\<rparr>"

definition anonymousChain :: JobChain where
  "anonymousChain = \<lparr>specRequestId = None, specNodes = [jobA, jobB]\<rparr>"

definition postChain :: "JobChain \<Rightarrow> HTTPContext" where
  "postChain jc = \<lparr>Method = ''POST'', Body = Inr jc, Arguments = [''/api/v1/job-chains'']\<rparr>"

definition putStart1 :: HTTPContext where
  "putStart1 = \<lparr>Method = ''PUT'', Body = Inl (Error ''EOF''),
                Arguments = [''/api/v1/job-chains/1/start'', ''1'']\<rparr>"

definition putStop1 :: HTTPContext where
  "putStop1 = \<lparr>Method = ''PUT'', Body = Inl (Error ''EOF''),
               Arguments = [''/api/v1/job-chains/1/stop'', ''1'']\<rparr>"

definition getStatus1 :: HTTPContext where
  "getStatus1 = \<lparr>Method = ''GET'', Body = Inl (Error ''EOF''),
                 Arguments = [''/api/v1/job-chains/1/status'', ''1'']\<rparr>"

definition hostnameOk :: "unit \<Rightarrow> string \<times> error option" where
  "hostnameOk = (\<lambda>_. (''runner1'', None))"

definition hostnameFails :: "unit \<Rightarrow> string \<times> error option" where
  "hostnameFails = (\<lambda>_. ([], Some (Error ''no hostname'')))"

definition marshalName :: "traverserStatus \<Rightarrow> error + string" where
  "marshalName st = Inr (if st = TRunning then ''running'' else ''other'')"










text \<open>
  Every Traverser in the registry has been allocated. This holds in every
  state reached from \<open>NewAPI\<close>, as shown below.
\<close>

definition registryAllocated :: "API \<Rightarrow> bool" where
  "registryAllocated api = (\<forall>k r. traverserRepo api k = Some r \<longrightarrow> r < nextRef api)"

section \<open>Facts about the sample data\<close>

lemma chain1_wellformed: "\<not> malformed chain1"
  by code_simp

lemma cyclicChain_hasCycle: "hasCycle cyclicChain"
  by code_simp

lemma danglingChain_dangling: "danglingReference danglingChain"
  by code_simp

lemma anonymousChain_anonymous: "specRequestId anonymousChain = None"
  by (simp add: anonymousChain_def)

lemma FormatUint_1: "FormatUint (Suc 0) = ''1''"
  by code_simp

lemma chain1_id: "specRequestId chain1 = Some 1"
  by (simp add: chain1_def)

lemmas handler_defs = newJobChainHandler_def startJobChainHandler_def stopJobChainHandler_def
  statusJobChainHandler_def argument1_def Get_def Add_def Remove_def NewChain_def NewTraverser_def
  Traverser_Stop_def Traverser_Status_def Let_def

text \<open>
  The model of the chain package does not reject everything: the well-formed
  two-job chain is registered under the key \<open>''1''\<close>.
\<close>

lemma wellformed_chain_accepted:
  "traverserRepo (fst (newJobChainHandler NewAPI (postChain chain1))) = [''1'' \<mapsto> 0] \<and>
   snd (newJobChainHandler NewAPI (postChain chain1)) = emptyResponse"
  by (simp add: handler_defs postChain_def NewAPI_def chain1_wellformed FormatUint_1 chain1_id)

lemma FormatUint_examples: "FormatUint 0 = ''0''" "FormatUint 1207 = ''1207''"
  by code_simp+

lemma hasCycle_iff: "hasCycle jc = (\<exists>x. (x, x) \<in> (set (edges jc))\<^sup>+)"
  by (simp add: hasCycle_def acyclic_def)

lemmas go_defs = goRun_def goRunReturn_def goRemove_def setPhase_def









section \<open>The registry only holds allocated Traversers\<close>

lemma NewAPI_allocated: "registryAllocated NewAPI"
  by (simp add: registryAllocated_def NewAPI_def)

lemma step_allocated:
  assumes "step e api = Some api'" and "registryAllocated api"
  shows "registryAllocated api'"
proof (cases e)
  case (NewJobChainReq ctx)
  with assms show ?thesis
    unfolding registryAllocated_def
    by (auto simp: newJobChainHandler_def NewTraverser_def NewChain_def Add_def Let_def
        less_Suc_eq split: if_splits sum.splits chain.splits option.splits)
next
  case (StartReq ctx hn)
  with assms show ?thesis
    unfolding registryAllocated_def
    by (auto simp: startJobChainHandler_def Get_def split: if_splits option.splits)
next
  case (StopReq ctx)
  with assms show ?thesis
    unfolding registryAllocated_def
    by (auto simp: stopJobChainHandler_def Get_def Remove_def
        split: if_splits option.splits prod.splits)
next
  case (StatusReq ctx m)
  with assms show ?thesis
    unfolding registryAllocated_def
    by (auto simp: statusJobChainHandler_def Get_def Traverser_Status_def
        split: if_splits option.splits sum.splits)
next
  case (GoRun i)
  with assms show ?thesis
    unfolding registryAllocated_def
    by (auto simp: goRun_def Let_def split: if_splits)
next
  case (GoRunReturn i st)
  with assms show ?thesis
    unfolding registryAllocated_def
    by (auto simp: goRunReturn_def Let_def split: if_splits)
next
  case (GoRemove i)
  with assms show ?thesis
    unfolding registryAllocated_def
    by (auto simp: goRemove_def Remove_def split: if_splits)
qed

lemma exec_allocated:
  "exec es api = Some api' \<Longrightarrow> registryAllocated api \<Longrightarrow> registryAllocated api'"
proof (induction es arbitrary: api)
  case Nil
  then show ?case by simp
next
  case (Cons e es)
  then obtain api1 where s: "step e api = Some api1" and r: "exec es api1 = Some api'"
    by (auto split: option.splits)
  from step_allocated [OF s Cons.prems(2)] Cons.IH [OF r] show ?case by blast
qed

lemma reachable_allocated: "exec es NewAPI = Some api \<Longrightarrow> registryAllocated api"
  using exec_allocated NewAPI_allocated by blast

section \<open>Properties of the runner factory\<close>

text \<open>
  C2. \<open>Make\<close> returns the error \<open>e\<close> exactly when the job-type lookup fails with
  \<open>e\<close>, or the lookup gives a job whose state restoration fails with \<open>e\<close>; it
  returns a runner and no error exactly when both succeed; and one of the two
  always happens.
\<close>

theorem Make_error_iff:
  "(Make_error (Make f jobType jobName jobBytes requestId) = Some e) =
     (Factory_Make f jobType jobName = Inl e \<or>
      (\<exists>job. Factory_Make f jobType jobName = Inr job \<and>
             Job_Deserialize f job jobBytes = Inl e))
   \<and> ((\<exists>r. Make_runner (Make f jobType jobName jobBytes requestId) = Some r \<and>
            Make_error (Make f jobType jobName jobBytes requestId) = None) =
       (\<exists>job job'. Factory_Make f jobType jobName = Inr job \<and>
                   Job_Deserialize f job jobBytes = Inr job'))
   \<and> ((\<exists>e'. Make_error (Make f jobType jobName jobBytes requestId) = Some e') \<or>
       (\<exists>r. Make_runner (Make f jobType jobName jobBytes requestId) = Some r \<and>
            Make_error (Make f jobType jobName jobBytes requestId) = None))"
  by (auto simp: Make_def Make_error_def Make_runner_def split: sum.splits)



text \<open>
  C9. When the job-type lookup fails, \<open>Make\<close> returns that error after the
  lookup alone, without a call of \<open>Deserialize\<close>. Whenever \<open>Make\<close> returns an
  error its runner is \<^verbatim>\<open>nil\<close> and no runner was constructed; whenever it
  returns a \<^verbatim>\<open>nil\<close> error its runner is not \<^verbatim>\<open>nil\<close>.
\<close>

theorem Make_atomic_on_error:
  "(Factory_Make f jobType jobName = Inl e \<longrightarrow>
      Make f jobType jobName jobBytes requestId =
        ([CallFactoryMake jobType jobName], None, Some e))
   \<and> (Make_error (Make f jobType jobName jobBytes requestId) \<noteq> None \<longrightarrow>
        Make_runner (Make f jobType jobName jobBytes requestId) = None \<and>
        (\<forall>j. CallNewJobRunner j requestId \<notin>
           set (Make_calls (Make f jobType jobName jobBytes requestId))))
   \<and> (Make_error (Make f jobType jobName jobBytes requestId) = None \<longrightarrow>
        Make_runner (Make f jobType jobName jobBytes requestId) \<noteq> None)"
  by (auto simp: Make_def Make_error_def Make_runner_def Make_calls_def split: sum.splits)

theorem Make_atomic_on_error_witness:
  "Factory_Make demoFactory ''nope'' ''j1'' = Inl (Error ''unknown job type'') \<and>
   Make demoFactory ''nope'' ''j1'' ''state'' 7 =
     ([CallFactoryMake ''nope'' ''j1''], None, Some (Error ''unknown job type'')) \<and>
   Make_error (Make demoFactory ''shell'' ''j1'' [] 7) \<noteq> None \<and>
   Make_runner (Make demoFactory ''shell'' ''j1'' [] 7) = None \<and>
   Make_error (Make demoFactory ''shell'' ''j1'' ''state'' 7) = None \<and>
   Make_runner (Make demoFactory ''shell'' ''j1'' ''state'' 7) \<noteq> None"
proof -
  have h1: "Factory_Make demoFactory ''nope'' ''j1'' = Inl (Error ''unknown job type'')"
    by (simp add: demoFactory_def)
  have h2: "Make_error (Make demoFactory ''shell'' ''j1'' [] 7) \<noteq> None"
    by (simp add: Make_def Make_error_def demoFactory_def)
  have h3: "Make_error (Make demoFactory ''shell'' ''j1'' ''state'' 7) = None"
    by (simp add: Make_def Make_error_def demoFactory_def)
  from Make_atomic_on_error [of demoFactory "''nope''" "''j1''" "Error ''unknown job type''"
      "''state''" 7]
    Make_atomic_on_error [of demoFactory "''shell''" "''j1''" e "[]" 7 for e]
    Make_atomic_on_error [of demoFactory "''shell''" "''j1''" e "''state''" 7 for e]
    h1 h2 h3
  show ?thesis by blast
qed

section \<open>Properties of the controllers\<close>

text \<open>
  The claim that a stop request for an absent Traverser is no error fails on
  the controller: on the empty registry the caller gets a not-found error.
\<close>

theorem stop_absent_is_an_error:
  "traverserRepo NewAPI ''1'' = None \<and>
   stopJobChainHandler NewAPI putStop1 =
     Some (NewAPI, APIError ErrNotFound
                     ''Can't retrieve traverser from repo (error: not found).'') \<and>
   apiError (APIError ErrNotFound ''Can't retrieve traverser from repo (error: not found).'') =
     Some (ErrNotFound, ''Can't retrieve traverser from repo (error: not found).'')"
  by (simp add: handler_defs putStop1_def NewAPI_def APIError_def emptyResponse_def)

text \<open>
  C1, as amended. For a stop request (a PUT) whose request identifier has no
  Traverser in the registry, the controller answers with a not-found error and
  changes nothing: the registry, the Traversers and the goroutines are as
  before, so neither \<open>Stop\<close> nor \<open>Remove\<close> had an effect.
\<close>

theorem stop_absent_not_found:
  assumes "Method ctx = ''PUT''" and "argument1 ctx = Some requestIdStr"
    and "traverserRepo api requestIdStr = None"
  shows "stopJobChainHandler api ctx =
           Some (api, APIError ErrNotFound
                        ''Can't retrieve traverser from repo (error: not found).'')"
  using assms by (simp add: stopJobChainHandler_def Get_def)

theorem stop_absent_not_found_witness:
  "Method putStop1 = ''PUT'' \<and> argument1 putStop1 = Some ''1'' \<and>
   traverserRepo NewAPI ''1'' = None \<and>
   stopJobChainHandler NewAPI putStop1 =
     Some (NewAPI, APIError ErrNotFound
                     ''Can't retrieve traverser from repo (error: not found).'')"
proof -
  have h: "Method putStop1 = ''PUT''" "argument1 putStop1 = Some ''1''"
    "traverserRepo NewAPI ''1'' = None"
    by (simp_all add: putStop1_def argument1_def NewAPI_def)
  from stop_absent_not_found [OF h] h show ?thesis by simp
qed

text \<open>
  C4. A POST of a chain specification that misses its request identifier, has
  a predecessor or successor that is no node of it, or has a cycle, is rejected
  at the construction of its Traverser with a "malformed chain" error; the
  controller answers with a bad-request error and leaves the registry, and all
  the rest of the state, as it was.
\<close>

theorem malformed_chain_rejected:
  assumes "Method ctx = ''POST''" and "Body ctx = Inr jc"
    and "specRequestId jc = None \<or> danglingReference jc \<or> hasCycle jc"
  shows "NewTraverser api (NewChain jc) = Inl (Error ''malformed chain'') \<and>
         newJobChainHandler api ctx =
           (api, APIError ErrBadRequest
                   ''Problem creating traverser (error: malformed chain)'')"
  using assms
  by (simp add: newJobChainHandler_def NewTraverser_def NewChain_def malformed_def Let_def)

theorem malformed_chain_rejected_witness:
  "hasCycle cyclicChain \<and>
   NewTraverser NewAPI (NewChain cyclicChain) = Inl (Error ''malformed chain'') \<and>
   newJobChainHandler NewAPI (postChain cyclicChain) =
     (NewAPI, APIError ErrBadRequest ''Problem creating traverser (error: malformed chain)'') \<and>
   danglingReference danglingChain \<and>
   newJobChainHandler NewAPI (postChain danglingChain) =
     (NewAPI, APIError ErrBadRequest ''Problem creating traverser (error: malformed chain)'') \<and>
   specRequestId anonymousChain = None \<and>
   newJobChainHandler NewAPI (postChain anonymousChain) =
     (NewAPI, APIError ErrBadRequest ''Problem creating traverser (error: malformed chain)'')"
proof -
  have h: "Method (postChain jc) = ''POST''" "Body (postChain jc) = Inr jc" for jc
    by (simp_all add: postChain_def)
  have c: "specRequestId cyclicChain = None \<or> danglingReference cyclicChain \<or>
           hasCycle cyclicChain"
    using cyclicChain_hasCycle by simp
  have d: "specRequestId danglingChain = None \<or> danglingReference danglingChain \<or>
           hasCycle danglingChain"
    using danglingChain_dangling by simp
  have a: "specRequestId anonymousChain = None \<or> danglingReference anonymousChain \<or>
           hasCycle anonymousChain"
    using anonymousChain_anonymous by simp
  from malformed_chain_rejected [OF h c] malformed_chain_rejected [OF h d]
    malformed_chain_rejected [OF h a]
    cyclicChain_hasCycle danglingChain_dangling anonymousChain_anonymous
  show ?thesis by simp
qed

text \<open>
  C5. For a POST of a chain whose request identifier, in decimal, is a key of
  the registry already, \<open>Add\<close> on that key fails for every Traverser, the
  controller answers with a bad-request error, the registry is as before, and
  the Traverser registered under the key is untouched.
\<close>

theorem duplicate_post_rejected:
  assumes "Method ctx = ''POST''" and "Body ctx = Inr jc"
    and "traverserRepo api (FormatUint (RequestId (NewChain jc))) = Some r"
    and "r < nextRef api"
  shows "(\<exists>msg. apiError (snd (newJobChainHandler api ctx)) = Some (ErrBadRequest, msg)) \<and>
         traverserRepo (fst (newJobChainHandler api ctx)) = traverserRepo api \<and>
         heap (fst (newJobChainHandler api ctx)) r = heap api r \<and>
         (\<forall>t. Add (traverserRepo api) (FormatUint (RequestId (NewChain jc))) t =
                Inl (Error ''already exists''))"
  using assms
  by (auto simp: newJobChainHandler_def NewTraverser_def NewChain_def Add_def Let_def
      APIError_def emptyResponse_def split: chain.splits)

theorem duplicate_post_rejected_witness:
  "traverserRepo (fst (newJobChainHandler NewAPI (postChain chain1))) ''1'' = Some 0 \<and>
   snd (newJobChainHandler (fst (newJobChainHandler NewAPI (postChain chain1))) (postChain chain1)) =
     APIError ErrBadRequest ''already exists'' \<and>
   traverserRepo (fst (newJobChainHandler (fst (newJobChainHandler NewAPI (postChain chain1)))
                         (postChain chain1))) ''1'' = Some 0"
proof -
  let ?api = "fst (newJobChainHandler NewAPI (postChain chain1))"
  have h: "Method (postChain chain1) = ''POST''" "Body (postChain chain1) = Inr chain1"
    by (simp_all add: postChain_def)
  have k: "FormatUint (RequestId (NewChain chain1)) = ''1''"
    by (simp add: NewChain_def chain1_id FormatUint_1)
  have r: "traverserRepo ?api (FormatUint (RequestId (NewChain chain1))) = Some 0"
    "0 < nextRef ?api"
    by (simp_all add: handler_defs postChain_def NewAPI_def chain1_wellformed FormatUint_1 chain1_id)
  have e: "snd (newJobChainHandler ?api (postChain chain1)) =
             APIError ErrBadRequest ''already exists''"
    by (simp add: handler_defs postChain_def NewAPI_def chain1_wellformed FormatUint_1 chain1_id)
  from duplicate_post_rejected [OF h r] r k e show ?thesis by simp
qed

text \<open>
  C6. For a status query (a GET) whose request identifier has no Traverser in
  the registry, the controller answers with a not-found error and does nothing
  else: the state is as before and nothing but the error is in the response.
\<close>

theorem status_absent_not_found:
  assumes "Method ctx = ''GET''" and "argument1 ctx = Some requestIdStr"
    and "traverserRepo api requestIdStr = None"
  shows "statusJobChainHandler marshal api ctx =
           Some (api, APIError ErrNotFound
                        ''Can't retrieve traverser from repo (error: not found).'')"
  using assms by (simp add: statusJobChainHandler_def Get_def)

theorem status_absent_not_found_witness:
  "Method getStatus1 = ''GET'' \<and> argument1 getStatus1 = Some ''1'' \<and>
   traverserRepo NewAPI ''1'' = None \<and>
   statusJobChainHandler marshalName NewAPI getStatus1 =
     Some (NewAPI, \<lparr>apiError = Some (ErrNotFound,
                       ''Can't retrieve traverser from repo (error: not found).''),
                    unsupportedMethod = False, header = [], written = []\<rparr>)"
proof -
  have h: "Method getStatus1 = ''GET''" "argument1 getStatus1 = Some ''1''"
    "traverserRepo NewAPI ''1'' = None"
    by (simp_all add: getStatus1_def argument1_def NewAPI_def)
  from status_absent_not_found [OF h, of marshalName] h show ?thesis
    by (simp add: APIError_def emptyResponse_def)
qed

text \<open>
  C10. \<open>chainLocation\<close> returns, for every hostname function and request
  identifier, the host name the function gives, then \<open>''/api/v1/''\<close>, then
  \<open>''job-chains/''\<close>, then the identifier; the error of the function is dropped.
  The start controller, for a registered identifier, answers with this value
  as its Location header and with no error, whatever the hostname function
  reports.
\<close>

theorem chainLocation_ignores_hostname_error:
  "chainLocation requestId hostname =
     fst (hostname ()) @ ''/api/v1/'' @ ''job-chains/'' @ requestId
   \<and> (Method ctx = ''PUT'' \<and> argument1 ctx = Some requestId \<and>
        traverserRepo api requestId = Some r \<longrightarrow>
      map_option snd (startJobChainHandler api ctx hostname) =
        Some \<lparr>apiError = None, unsupportedMethod = False,
              header = [(''Location'',
                         fst (hostname ()) @ ''/api/v1/'' @ ''job-chains/'' @ requestId)],
              written = []\<rparr>)"
  by (auto simp: chainLocation_def API_ROOT_def startJobChainHandler_def Get_def
      emptyResponse_def split: prod.splits)

theorem chainLocation_ignores_hostname_error_witness:
  "snd (hostnameFails ()) = Some (Error ''no hostname'') \<and>
   chainLocation ''1'' hostnameFails = ''/api/v1/job-chains/1'' \<and>
   Method putStart1 = ''PUT'' \<and> argument1 putStart1 = Some ''1'' \<and>
   traverserRepo (fst (newJobChainHandler NewAPI (postChain chain1))) ''1'' = Some 0 \<and>
   map_option snd (startJobChainHandler (fst (newJobChainHandler NewAPI (postChain chain1)))
                     putStart1 hostnameFails) =
     Some \<lparr>apiError = None, unsupportedMethod = False,
           header = [(''Location'', ''/api/v1/job-chains/1'')], written = []\<rparr>"
proof -
  let ?api = "fst (newJobChainHandler NewAPI (postChain chain1))"
  have h: "Method putStart1 = ''PUT'' \<and> argument1 putStart1 = Some ''1'' \<and>
           traverserRepo ?api ''1'' = Some 0"
    by (simp add: handler_defs putStart1_def postChain_def NewAPI_def chain1_wellformed FormatUint_1 chain1_id)
  have f: "hostnameFails () = ([], Some (Error ''no hostname''))"
    by (simp add: hostnameFails_def)
  from chainLocation_ignores_hostname_error [of "''1''" hostnameFails putStart1 ?api 0] h f
  show ?thesis by simp
qed

section \<open>Properties of the interleaving\<close>







text \<open>
  The goroutine removes by key, not by Traverser. When the chain is stopped
  while it runs and a chain with the same identifier is posted again, the
  return of the first \<open>Run\<close> is followed by the removal of the second
  Traverser, which was never started.
\<close>

lemma late_Remove_hits_new_traverser:
  "map_option (\<lambda>api. (traverserRepo api ''1'', tStatus (heap api 1)))
     (exec [NewJobChainReq (postChain chain1), StartReq putStart1 hostnameOk, GoRun 0,
            StopReq putStop1, NewJobChainReq (postChain chain1), GoRunReturn 0 TStopped] NewAPI) =
     Some (Some 1, TCreated) \<and>
   map_option (\<lambda>api. (traverserRepo api ''1'', tStatus (heap api 1)))
     (exec [NewJobChainReq (postChain chain1), StartReq putStart1 hostnameOk, GoRun 0,
            StopReq putStop1, NewJobChainReq (postChain chain1), GoRunReturn 0 TStopped,
            GoRemove 0] NewAPI) =
     Some (None, TCreated)"
  by (simp add: handler_defs go_defs putStart1_def putStop1_def postChain_def NewAPI_def chain1_wellformed FormatUint_1 chain1_id)

end
